theory Spec2Isabelle
  imports Main "HOL-Library.Multiset"
begin

section \<open>The note record\<close>

text \<open>
  The upload handler of \<^verbatim>\<open>dev-server.js\<close> builds a note object with eleven fields;
  \<^verbatim>\<open>api/store.js\<close> keeps an array of such objects in the module variable
  \<^verbatim>\<open>notesStore\<close> and mirrors it to \<^verbatim>\<open>notes-data.json\<close>.

  The field \<^verbatim>\<open>createdAt\<close> has two shapes at run time. The handler stores
  \<^verbatim>\<open>new Date()\<close>, a Date object. \<^verbatim>\<open>JSON.stringify\<close> writes a Date as the string
  its \<^verbatim>\<open>toISOString\<close> gives, and \<^verbatim>\<open>JSON.parse\<close> does not turn that string back into
  a Date, so a note read from the file carries a string. Both shapes are kept apart:
  \<open>DateObject t\<close> is the Date object with time value \<open>t\<close> (milliseconds since the
  epoch), \<open>IsoString t\<close> is the string \<^verbatim>\<open>new Date(t).toISOString()\<close>. Records whose
  \<^verbatim>\<open>createdAt\<close> is neither (an invalid Date, an arbitrary string) are outside the model.
\<close>

datatype created = DateObject int | IsoString int

record Note =
  note_id :: string
  title :: string
  subject :: string
  desc :: string
  note_type :: string
  fileName :: string
  fileUrl :: string
  publicId :: string
  fileType :: string
  fileSize :: int
  createdAt :: created

text \<open>\<^verbatim>\<open>new Date(x)\<close> for a Date object or an ISO string, read as its time value.\<close>

fun new_Date :: "created \<Rightarrow> int" where
  "new_Date (DateObject t) = t"
| "new_Date (IsoString t) = t"

section \<open>The backing file and JSON\<close>

text \<open>
  The text of the file is abstracted to what \<^verbatim>\<open>JSON.parse\<close> makes of it: either it is
  not JSON (\<open>Malformed\<close>, with the text), or it is the JSON array of the given records
  (\<open>JsonNotes\<close>). A file written by \<^verbatim>\<open>JSON.stringify\<close> holds only \<open>IsoString\<close>
  timestamps. Well-formed JSON of another shape is outside the model.
\<close>

datatype file_data = Malformed string | JsonNotes "Note list"

datatype js_error = SyntaxError | IOError

text \<open>\<^verbatim>\<open>Date.prototype.toJSON\<close> applied to the one field that is not plain JSON data.\<close>

fun toJSON :: "created \<Rightarrow> created" where
  "toJSON (DateObject t) = IsoString t"
| "toJSON (IsoString t) = IsoString t"

definition stringify_note :: "Note \<Rightarrow> Note" where
  "stringify_note n = n\<lparr>createdAt := toJSON (createdAt n)\<rparr>"

definition JSON_stringify :: "Note list \<Rightarrow> file_data" where
  "JSON_stringify ns = JsonNotes (map stringify_note ns)"

fun JSON_parse :: "file_data \<Rightarrow> js_error + Note list" where
  "JSON_parse (Malformed txt) = Inl SyntaxError"
| "JSON_parse (JsonNotes ns) = Inr ns"

text \<open>
  \<^verbatim>\<open>fs.writeFileSync\<close> opens the file with flag \<^verbatim>\<open>w\<close>, which truncates it, writes the
  text and closes the file; it is not atomic. A call that throws leaves one of three
  things behind, by the stage that failed:
  \<^item> \<open>OpenFails\<close>: the file could not be opened for writing (no permission, read-only
    file system); it is as it was.
  \<^item> \<open>WriteFails txt\<close>: the file was opened, hence truncated, and the write failed (disk
    full, input/output error) with the text \<open>txt\<close> on disk, a proper beginning of the
    new text, possibly empty. A proper beginning of the text of a JSON array is not
    JSON.
  \<^item> \<open>CloseFails\<close>: the whole text was written and closing the file failed.
\<close>

datatype write_fault = OpenFails | WriteFails string | CloseFails

text \<open>
  The state of the store module: the array \<^verbatim>\<open>notesStore\<close>, the contents of
  \<^verbatim>\<open>STORE_FILE\<close> (\<open>None\<close> when the file does not exist), and what the file system
  does with that path: whether \<^verbatim>\<open>readFileSync\<close> succeeds, whether \<^verbatim>\<open>writeFileSync\<close>
  succeeds, and how it fails when it does not.
\<close>

record store =
  notesStore :: "Note list"
  STORE_FILE :: "file_data option"
  readable :: bool
  writable :: bool
  fault :: write_fault

definition existsSync :: "store \<Rightarrow> bool" where
  "existsSync s = (STORE_FILE s \<noteq> None)"

definition readFileSync :: "store \<Rightarrow> js_error + file_data" where
  "readFileSync s =
     (case STORE_FILE s of
        None \<Rightarrow> Inl IOError
      | Some d \<Rightarrow> if readable s then Inr d else Inl IOError)"

text \<open>A call that throws gives the error together with the state it leaves.\<close>

definition writeFileSync :: "store \<Rightarrow> file_data \<Rightarrow> js_error \<times> store + store" where
  "writeFileSync s d =
     (if writable s then Inr (s\<lparr>STORE_FILE := Some d\<rparr>)
      else
        (case fault s of
           OpenFails \<Rightarrow> Inl (IOError, s)
         | WriteFails txt \<Rightarrow> Inl (IOError, s\<lparr>STORE_FILE := Some (Malformed txt)\<rparr>)
         | CloseFails \<Rightarrow> Inl (IOError, s\<lparr>STORE_FILE := Some d\<rparr>)))"

section \<open>The store: \<^verbatim>\<open>api/store.js\<close>\<close>

text \<open>\<^verbatim>\<open>saveNotes\<close> catches the error of the write, logs it and returns normally; the
  file is then as the failed write left it.\<close>

definition saveNotes :: "store \<Rightarrow> store" where
  "saveNotes s =
     (case writeFileSync s (JSON_stringify (notesStore s)) of
        Inr s' \<Rightarrow> s'
      | Inl (e, s') \<Rightarrow> s')"

definition loadNotes :: "store \<Rightarrow> store" where
  "loadNotes s =
     (if existsSync s then
        (case readFileSync s of
           Inl e \<Rightarrow> s\<lparr>notesStore := []\<rparr>
         | Inr data \<Rightarrow>
             (case JSON_parse data of
                Inl e \<Rightarrow> s\<lparr>notesStore := []\<rparr>
              | Inr ns \<Rightarrow> s\<lparr>notesStore := ns\<rparr>))
      else saveNotes (s\<lparr>notesStore := []\<rparr>))"

text \<open>
  \<^verbatim>\<open>Array.prototype.sort\<close> with a comparison function: the sort is stable, puts \<open>a\<close>
  before \<open>b\<close> when \<open>cmp a b < 0\<close>, sorts the array in place and returns that same
  array. For a consistent comparison function every stable sort gives the same result;
  it is written here as insertion from the right.
\<close>

fun sort_insert :: "('a \<Rightarrow> 'a \<Rightarrow> int) \<Rightarrow> 'a \<Rightarrow> 'a list \<Rightarrow> 'a list" where
  "sort_insert cmp x [] = [x]"
| "sort_insert cmp x (y # ys) =
     (if cmp x y \<le> 0 then x # y # ys else y # sort_insert cmp x ys)"

fun Array_sort :: "('a \<Rightarrow> 'a \<Rightarrow> int) \<Rightarrow> 'a list \<Rightarrow> 'a list" where
  "Array_sort cmp [] = []"
| "Array_sort cmp (x # xs) = sort_insert cmp x (Array_sort cmp xs)"

text \<open>The comparison function of \<^verbatim>\<open>getNotes\<close>:
  \<^verbatim>\<open>(a, b) => new Date(b.createdAt) - new Date(a.createdAt)\<close>.\<close>

definition byCreatedAt :: "Note \<Rightarrow> Note \<Rightarrow> int" where
  "byCreatedAt a b = new_Date (createdAt b) - new_Date (createdAt a)"

text \<open>
  \<^verbatim>\<open>getNotes\<close> returns \<^verbatim>\<open>notesStore.sort(...)\<close>: the module's array itself, sorted in
  place. The model returns the new state and the returned array.
\<close>

definition getNotes :: "store \<Rightarrow> store \<times> Note list" where
  "getNotes s =
     (let sorted_notes = Array_sort byCreatedAt (notesStore s)
      in (s\<lparr>notesStore := sorted_notes\<rparr>, sorted_notes))"

text \<open>
  \<^verbatim>\<open>addNote\<close>: push, save, return the note. The \<^verbatim>\<open>catch\<close> branch returns
  \<^verbatim>\<open>null\<close> (\<open>None\<close>); nothing in the \<^verbatim>\<open>try\<close> block throws for a note record, since
  \<^verbatim>\<open>saveNotes\<close> has caught its own error.
\<close>

definition addNote :: "store \<Rightarrow> Note \<Rightarrow> store \<times> Note option" where
  "addNote s n =
     (let s1 = s\<lparr>notesStore := notesStore s @ [n]\<rparr>;
          s2 = saveNotes s1
      in (s2, Some n))"

text \<open>\<^verbatim>\<open>Array.prototype.findIndex\<close>: the index of the first element that satisfies the
  predicate, \<open>-1\<close> when there is none.\<close>

fun findIndex_from :: "('a \<Rightarrow> bool) \<Rightarrow> 'a list \<Rightarrow> int \<Rightarrow> int" where
  "findIndex_from p [] k = - 1"
| "findIndex_from p (x # xs) k = (if p x then k else findIndex_from p xs (k + 1))"

definition findIndex :: "('a \<Rightarrow> bool) \<Rightarrow> 'a list \<Rightarrow> int" where
  "findIndex p xs = findIndex_from p xs 0"

text \<open>\<^verbatim>\<open>xs.splice(i, 1)\<close> for an index inside the array.\<close>

definition splice1 :: "'a list \<Rightarrow> nat \<Rightarrow> 'a list" where
  "splice1 xs i = take i xs @ drop (Suc i) xs"

definition deleteNote :: "store \<Rightarrow> string \<Rightarrow> store \<times> Note option" where
  "deleteNote s i =
     (let noteIndex = findIndex (\<lambda>n. note_id n = i) (notesStore s)
      in if noteIndex = - 1 then (s, None)
         else
           (let n = notesStore s ! nat noteIndex;
                s1 = s\<lparr>notesStore := splice1 (notesStore s) (nat noteIndex)\<rparr>;
                s2 = saveNotes s1
            in (s2, Some n)))"

text \<open>\<^verbatim>\<open>findNote\<close>: \<^verbatim>\<open>Array.prototype.find\<close>, the first match or \<^verbatim>\<open>undefined\<close>
  (\<open>None\<close>).\<close>

definition findNote :: "store \<Rightarrow> string \<Rightarrow> Note option" where
  "findNote s i = find (\<lambda>n. note_id n = i) (notesStore s)"

section \<open>The upload handler: \<^verbatim>\<open>dev-server.js\<close>\<close>

text \<open>
  A text field of the multipart body is a string or absent (\<^verbatim>\<open>undefined\<close>, \<open>None\<close>);
  \<^verbatim>\<open>req.file\<close> is absent when no file part was sent. Of the file only the fields that
  reach the note are kept.
\<close>

record upload_file =
  originalname :: string
  mimetype :: string
  file_bytes :: int

record upload_req =
  req_file :: "upload_file option"
  body_title :: "string option"
  body_subject :: "string option"
  body_desc :: "string option"
  body_type :: "string option"

text \<open>What the Cloudinary upload resolves to; a rejected upload is \<open>Inl\<close> of the error's
  message.\<close>

record upload_result =
  secure_url :: string
  public_id :: string

datatype response_body = ErrorBody string | FileBody Note

datatype response = Response nat response_body

text \<open>Truthiness of a value that is a string or \<^verbatim>\<open>undefined\<close>.\<close>

fun truthy :: "string option \<Rightarrow> bool" where
  "truthy None = False"
| "truthy (Some v) = (v \<noteq> [])"

text \<open>\<^verbatim>\<open>x || d\<close> for such a value \<open>x\<close> and a string literal \<open>d\<close>.\<close>

definition or_default :: "string option \<Rightarrow> string \<Rightarrow> string" where
  "or_default x d = (case x of None \<Rightarrow> d | Some v \<Rightarrow> if v \<noteq> [] then v else d)"

text \<open>
  \<^verbatim>\<open>String.prototype.trim\<close>. A \<open>char\<close> stands for a code unit below 256, where the white
  space and line terminators of the language are tab, line feed, vertical tab, form
  feed, carriage return, space and no-break space.
\<close>

definition is_whitespace :: "char \<Rightarrow> bool" where
  "is_whitespace c =
     (c \<in> {CHR 0x09, CHR 0x0A, CHR 0x0B, CHR 0x0C, CHR 0x0D, CHR 0x20, CHR 0xA0})"

definition String_trim :: "string \<Rightarrow> string" where
  "String_trim v = rev (dropWhile is_whitespace (rev (dropWhile is_whitespace v)))"

text \<open>\<^verbatim>\<open>x?.trim()\<close>: \<^verbatim>\<open>undefined\<close> stays \<^verbatim>\<open>undefined\<close>.\<close>

definition opt_trim :: "string option \<Rightarrow> string option" where
  "opt_trim x = map_option String_trim x"

text \<open>\<^verbatim>\<open>Number.prototype.toString\<close> on an integer, as \<^verbatim>\<open>Date.now().toString()\<close> uses it.\<close>

definition digit_char :: "nat \<Rightarrow> char" where
  "digit_char d = ''0123456789'' ! d"

fun nat_digits :: "nat \<Rightarrow> string" where
  "nat_digits n =
     (if n < 10 then [digit_char n] else nat_digits (n div 10) @ [digit_char (n mod 10)])"

declare nat_digits.simps [simp del]

definition Number_toString :: "int \<Rightarrow> string" where
  "Number_toString i =
     (if i < 0 then CHR ''-'' # nat_digits (nat (- i)) else nat_digits (nat i))"

text \<open>
  The handler of \<^verbatim>\<open>POST /api/upload\<close>. Its surroundings are arguments: the outcome
  \<open>up\<close> of the Cloudinary upload, the clock value \<open>now_id\<close> that \<^verbatim>\<open>Date.now()\<close>
  gives for the identifier and the clock value \<open>now_created\<close> of \<^verbatim>\<open>new Date()\<close>. The
  options passed to Cloudinary and the message text of the 201 response do not reach
  the store and are left out. The value \<^verbatim>\<open>addNote\<close> returns is dropped, as in the
  source.
\<close>

definition bad_request :: response where
  "bad_request = Response 400 (ErrorBody ''File and title are required'')"

definition upload_handler ::
  "store \<Rightarrow> upload_req \<Rightarrow> string + upload_result \<Rightarrow> int \<Rightarrow> int \<Rightarrow> store \<times> response" where
  "upload_handler s req up now_id now_created =
     (case req_file req of
        None \<Rightarrow> (s, bad_request)
      | Some f \<Rightarrow>
          (case body_title req of
             None \<Rightarrow> (s, bad_request)
           | Some t \<Rightarrow>
               if t = [] then (s, bad_request)
               else
                 (case up of
                    Inl msg \<Rightarrow> (s, Response 500 (ErrorBody (''Upload failed: '' @ msg)))
                  | Inr uploadResult \<Rightarrow>
                      (let n = \<lparr> note_id = Number_toString now_id,
                                 title = String_trim t,
                                 subject = or_default (opt_trim (body_subject req)) [],
                                 desc = or_default (opt_trim (body_desc req)) [],
                                 note_type = or_default (body_type req) ''note'',
                                 fileName = originalname f,
                                 fileUrl = secure_url uploadResult,
                                 publicId = public_id uploadResult,
                                 fileType = mimetype f,
                                 fileSize = file_bytes f,
                                 createdAt = DateObject now_created \<rparr>;
                           s' = fst (addNote s n)
                       in (s', Response 201 (FileBody n))))))"

section \<open>Notions used in the statements\<close>

text \<open>Descending order of creation time: \<open>a\<close> may stand before \<open>b\<close>.\<close>

definition newest_first :: "Note \<Rightarrow> Note \<Rightarrow> bool" where
  "newest_first a b = (new_Date (createdAt b) \<le> new_Date (createdAt a))"

text \<open>A record that \<^verbatim>\<open>JSON.stringify\<close> writes as it is: it holds no Date object.\<close>

definition json_plain :: "Note \<Rightarrow> bool" where
  "json_plain n = (toJSON (createdAt n) = createdAt n)"

section \<open>Sample data\<close>

text \<open>Small concrete records and states on which the operations are run below. A sample
  store that is not writable fails at the opening of the file.\<close>

definition sample_note :: "string \<Rightarrow> string \<Rightarrow> created \<Rightarrow> Note" where
  "sample_note i t c =
     \<lparr> note_id = i, title = t, subject = [], desc = [], note_type = ''note'',
       fileName = ''a.pdf'', fileUrl = ''https://res.example/a.pdf'', publicId = ''a'',
       fileType = ''application/pdf'', fileSize = 10, createdAt = c \<rparr>"

definition sample_store :: "Note list \<Rightarrow> bool \<Rightarrow> store" where
  "sample_store ns w =
     \<lparr> notesStore = ns, STORE_FILE = Some (JsonNotes []), readable = True, writable = w,
       fault = OpenFails \<rparr>"

definition sample_req :: "string option \<Rightarrow> string option \<Rightarrow> string option \<Rightarrow> upload_req" where
  "sample_req sub d ty =
     \<lparr> req_file = Some \<lparr> originalname = ''a.pdf'', mimetype = ''application/pdf'',
                          file_bytes = 10 \<rparr>,
       body_title = Some '' Algebra '', body_subject = sub, body_desc = d, body_type = ty \<rparr>"

section \<open>Basic facts\<close>

subsection \<open>Saving\<close>

lemma saveNotes_notesStore: "notesStore (saveNotes s) = notesStore s"
  by (simp add: saveNotes_def writeFileSync_def split: write_fault.splits)

lemma saveNotes_STORE_FILE:
  "STORE_FILE (saveNotes s) =
     (if writable s then Some (JSON_stringify (notesStore s))
      else
        (case fault s of
           OpenFails \<Rightarrow> STORE_FILE s
         | WriteFails txt \<Rightarrow> Some (Malformed txt)
         | CloseFails \<Rightarrow> Some (JSON_stringify (notesStore s))))"
  by (simp add: saveNotes_def writeFileSync_def split: write_fault.splits)

lemma saveNotes_written:
  "writable s \<Longrightarrow> STORE_FILE (saveNotes s) = Some (JSON_stringify (notesStore s))"
  by (simp add: saveNotes_STORE_FILE)

lemma saveNotes_readable: "readable (saveNotes s) = readable s"
  by (simp add: saveNotes_def writeFileSync_def split: write_fault.splits)

text \<open>A write that fails after the file was opened leaves a file that the next start
  of the module cannot parse.\<close>

lemma saveNotes_truncated:
  "\<not> writable s \<Longrightarrow> fault s = WriteFails txt \<Longrightarrow>
   STORE_FILE (saveNotes s) = Some (Malformed txt) \<and> notesStore (loadNotes (saveNotes s)) = []"
  by (simp add: saveNotes_STORE_FILE loadNotes_def existsSync_def readFileSync_def)

lemma stringify_plain: "list_all json_plain ns \<Longrightarrow> map stringify_note ns = ns"
  by (induction ns) (auto simp: stringify_note_def json_plain_def)

lemma loadNotes_of_stringified:
  "readable s \<Longrightarrow> STORE_FILE s = Some (JSON_stringify ns) \<Longrightarrow>
   notesStore (loadNotes s) = map stringify_note ns"
  by (simp add: loadNotes_def existsSync_def readFileSync_def JSON_stringify_def)

subsection \<open>Sorting\<close>

lemma mset_sort_insert: "mset (sort_insert cmp x xs) = add_mset x (mset xs)"
  by (induction xs) auto

lemma mset_Array_sort: "mset (Array_sort cmp xs) = mset xs"
  by (induction xs) (auto simp: mset_sort_insert)

lemma set_sort_insert: "set (sort_insert cmp x xs) = insert x (set xs)"
  by (induction xs) auto

lemma sorted_sort_insert:
  "sorted_wrt newest_first xs \<Longrightarrow> sorted_wrt newest_first (sort_insert byCreatedAt x xs)"
  by (induction xs) (auto simp: set_sort_insert byCreatedAt_def newest_first_def)

lemma sorted_Array_sort: "sorted_wrt newest_first (Array_sort byCreatedAt xs)"
  by (induction xs) (auto simp: sorted_sort_insert)

text \<open>An array already in descending order is left as it is.\<close>

lemma Array_sort_sorted_id:
  "sorted_wrt newest_first xs \<Longrightarrow> Array_sort byCreatedAt xs = xs"
proof (induction xs)
  case Nil
  then show ?case by simp
next
  case (Cons x xs)
  then have "Array_sort byCreatedAt xs = xs" by simp
  moreover have "sort_insert byCreatedAt x xs = x # xs"
    using Cons.prems by (cases xs) (auto simp: byCreatedAt_def newest_first_def)
  ultimately show ?case by simp
qed

subsection \<open>Searching and deleting\<close>

lemma findIndex_from_none:
  "\<forall>x\<in>set xs. \<not> p x \<Longrightarrow> findIndex_from p xs k = - 1"
  by (induction xs arbitrary: k) auto

lemma findIndex_from_first:
  "p n \<Longrightarrow> \<forall>x\<in>set xs. \<not> p x \<Longrightarrow>
   findIndex_from p (xs @ n # ys) k = k + int (length xs)"
  by (induction xs arbitrary: k) auto

lemma splice1_middle: "splice1 (xs @ n # ys) (length xs) = xs @ ys"
  by (simp add: splice1_def)

lemma find_append_absent:
  "\<forall>x\<in>set xs. \<not> p x \<Longrightarrow> find p (xs @ ys) = find p ys"
  by (induction xs) auto

text \<open>Every identifier that occurs in an array has a first record that carries it.\<close>

lemma first_match_exists:
  assumes "i \<in> note_id ` set ns"
  shows "\<exists>xs n ys. ns = xs @ n # ys \<and> note_id n = i \<and> (\<forall>x\<in>set xs. note_id x \<noteq> i)"
proof -
  from assms have "\<exists>x\<in>set ns. note_id x = i" by auto
  then show ?thesis by (rule split_list_first_prop [THEN exE]) blast
qed

lemma deleteNote_first:
  assumes "notesStore s = xs @ n # ys" and "note_id n = i"
    and "\<forall>x\<in>set xs. note_id x \<noteq> i"
  shows "deleteNote s i = (saveNotes (s\<lparr>notesStore := xs @ ys\<rparr>), Some n)"
proof -
  have "findIndex (\<lambda>m. note_id m = i) (notesStore s) = int (length xs)"
    using assms by (simp add: findIndex_def findIndex_from_first)
  then show ?thesis
    using assms(1) by (simp add: deleteNote_def Let_def splice1_middle)
qed

lemma deleteNote_no_match:
  assumes "i \<notin> note_id ` set (notesStore s)"
  shows "deleteNote s i = (s, None)"
proof -
  from assms have "\<forall>x\<in>set (notesStore s). \<not> note_id x = i" by auto
  then have "findIndex (\<lambda>m. note_id m = i) (notesStore s) = - 1"
    by (simp add: findIndex_def findIndex_from_none)
  then show ?thesis by (simp add: deleteNote_def)
qed

section \<open>The file mirrors the collection\<close>

text \<open>
  Claim C1 says that after every add or remove that succeeds, reading the file back and
  parsing it gives a collection equal to the one in memory. Two runs show that this
  does not hold as stated. In the first, a note with a Date object is added to a
  writable store: the file is written, and reading it back gives the note with the ISO
  string in place of the Date object, which is another value. In the second, the file
  cannot be opened for writing: \<^verbatim>\<open>addNote\<close> still returns the note and keeps it in
  memory, and the file keeps its old contents.
\<close>

theorem reload_differs_from_memory:
  "notesStore (fst (addNote (sample_store [] True) (sample_note ''1'' ''A'' (DateObject 5))))
     = [sample_note ''1'' ''A'' (DateObject 5)]
   \<and> notesStore (loadNotes
         (fst (addNote (sample_store [] True) (sample_note ''1'' ''A'' (DateObject 5)))))
     = [sample_note ''1'' ''A'' (IsoString 5)]
   \<and> sample_note ''1'' ''A'' (IsoString 5) \<noteq> sample_note ''1'' ''A'' (DateObject 5)
   \<and> snd (addNote (sample_store [] False) (sample_note ''1'' ''A'' (IsoString 5)))
     = Some (sample_note ''1'' ''A'' (IsoString 5))
   \<and> notesStore (fst (addNote (sample_store [] False) (sample_note ''1'' ''A'' (IsoString 5))))
     = [sample_note ''1'' ''A'' (IsoString 5)]
   \<and> STORE_FILE (fst (addNote (sample_store [] False) (sample_note ''1'' ''A'' (IsoString 5))))
     = Some (JsonNotes [])"
  by (simp add: addNote_def saveNotes_def writeFileSync_def sample_store_def sample_note_def
      loadNotes_def existsSync_def readFileSync_def JSON_stringify_def stringify_note_def)

text \<open>
  Claim C1, amended. When the file can be written and read, then after \<^verbatim>\<open>addNote\<close>,
  and after a \<^verbatim>\<open>deleteNote\<close> that found its record, the file holds
  \<^verbatim>\<open>JSON.stringify\<close> of the collection in memory, and loading it gives that collection
  with every Date object replaced by its ISO string. For a collection without Date
  objects this is the collection itself.
\<close>

theorem mutation_mirrored_to_file:
  assumes "writable s" and "readable s"
  shows "STORE_FILE (fst (addNote s n)) = Some (JSON_stringify (notesStore (fst (addNote s n))))
       \<and> notesStore (loadNotes (fst (addNote s n)))
           = map stringify_note (notesStore (fst (addNote s n)))
       \<and> (snd (deleteNote s i) \<noteq> None \<longrightarrow>
            STORE_FILE (fst (deleteNote s i))
              = Some (JSON_stringify (notesStore (fst (deleteNote s i))))
          \<and> notesStore (loadNotes (fst (deleteNote s i)))
              = map stringify_note (notesStore (fst (deleteNote s i))))
       \<and> (list_all json_plain ns \<longrightarrow> map stringify_note ns = ns)"
proof -
  have add_file:
    "STORE_FILE (fst (addNote s n)) = Some (JSON_stringify (notesStore (fst (addNote s n))))"
    using assms(1) by (simp add: addNote_def Let_def saveNotes_STORE_FILE saveNotes_notesStore)
  have add_r: "readable (fst (addNote s n))"
    using assms(2) by (simp add: addNote_def Let_def saveNotes_readable)
  have del_file:
    "STORE_FILE (fst (deleteNote s i)) = Some (JSON_stringify (notesStore (fst (deleteNote s i))))"
    if "snd (deleteNote s i) \<noteq> None"
    using that assms(1)
    by (simp add: deleteNote_def Let_def saveNotes_STORE_FILE saveNotes_notesStore
        split: if_splits)
  have del_r: "readable (fst (deleteNote s i))"
    using assms(2) by (simp add: deleteNote_def Let_def saveNotes_readable)
  show ?thesis
    using add_file add_r del_file del_r
    by (simp add: loadNotes_of_stringified stringify_plain)
qed

text \<open>The amended claim C1 on a store of two records without Date objects: a third is
  added, and the first is removed.\<close>

theorem mutation_mirrored_to_file_witness:
  "writable (sample_store [sample_note ''1'' ''A'' (IsoString 1),
                           sample_note ''2'' ''B'' (IsoString 2)] True)
   \<and> readable (sample_store [sample_note ''1'' ''A'' (IsoString 1),
                             sample_note ''2'' ''B'' (IsoString 2)] True)
   \<and> snd (deleteNote (sample_store [sample_note ''1'' ''A'' (IsoString 1),
                                    sample_note ''2'' ''B'' (IsoString 2)] True) ''1'') \<noteq> None
   \<and> list_all json_plain [sample_note ''2'' ''B'' (IsoString 2)]
   \<and> notesStore (loadNotes (fst (addNote
         (sample_store [sample_note ''1'' ''A'' (IsoString 1),
                        sample_note ''2'' ''B'' (IsoString 2)] True)
         (sample_note ''3'' ''C'' (IsoString 3)))))
       = [sample_note ''1'' ''A'' (IsoString 1), sample_note ''2'' ''B'' (IsoString 2),
          sample_note ''3'' ''C'' (IsoString 3)]
   \<and> notesStore (loadNotes (fst (deleteNote
         (sample_store [sample_note ''1'' ''A'' (IsoString 1),
                        sample_note ''2'' ''B'' (IsoString 2)] True) ''1'')))
       = [sample_note ''2'' ''B'' (IsoString 2)]"
proof -
  let ?S = "sample_store [sample_note ''1'' ''A'' (IsoString 1),
                          sample_note ''2'' ''B'' (IsoString 2)] True"
  have w: "writable ?S" and r: "readable ?S"
    by (simp_all add: sample_store_def)
  have d: "deleteNote ?S ''1''
      = (saveNotes (?S\<lparr>notesStore := [sample_note ''2'' ''B'' (IsoString 2)]\<rparr>),
         Some (sample_note ''1'' ''A'' (IsoString 1)))"
    by (simp add: deleteNote_def findIndex_def splice1_def Let_def sample_store_def
        sample_note_def)
  have a: "notesStore (fst (addNote ?S (sample_note ''3'' ''C'' (IsoString 3))))
      = [sample_note ''1'' ''A'' (IsoString 1), sample_note ''2'' ''B'' (IsoString 2),
         sample_note ''3'' ''C'' (IsoString 3)]"
    by (simp add: addNote_def Let_def saveNotes_notesStore sample_store_def)
  have p: "list_all json_plain [sample_note ''2'' ''B'' (IsoString 2)]"
    by (simp add: json_plain_def sample_note_def)
  have st: "stringify_note (sample_note k t (IsoString c)) = sample_note k t (IsoString c)"
    for k t c
    by (simp add: stringify_note_def sample_note_def)
  show ?thesis
    using mutation_mirrored_to_file [OF w r, of "sample_note ''3'' ''C'' (IsoString 3)" "''1''"
        "[sample_note ''2'' ''B'' (IsoString 2)]"] w r p
    by (simp add: d a st saveNotes_notesStore)
qed

section \<open>Adding\<close>

text \<open>
  Claim C2 says that \<^verbatim>\<open>addNote\<close> returns a null result when persisting raises an error.
  On a store whose file cannot be written the write raises, and \<^verbatim>\<open>addNote\<close> returns
  the note all the same: \<^verbatim>\<open>saveNotes\<close> has caught the error.
\<close>

theorem addNote_write_error_not_signalled:
  "writeFileSync
     ((sample_store [] False)\<lparr>notesStore := [sample_note ''1'' ''A'' (DateObject 5)]\<rparr>)
     (JSON_stringify [sample_note ''1'' ''A'' (DateObject 5)])
     = Inl (IOError,
            (sample_store [] False)\<lparr>notesStore := [sample_note ''1'' ''A'' (DateObject 5)]\<rparr>)
   \<and> snd (addNote (sample_store [] False) (sample_note ''1'' ''A'' (DateObject 5)))
      = Some (sample_note ''1'' ''A'' (DateObject 5))"
  by (simp add: addNote_def saveNotes_def writeFileSync_def sample_store_def)

text \<open>
  Claim C2, amended. For every record and every store state, \<^verbatim>\<open>addNote\<close> appends the
  record to the end of the collection in memory and returns it, whether the write to
  the file succeeds or raises an error; when the write succeeds, the file holds the
  whole collection.
\<close>

theorem addNote_appends_and_returns:
  "snd (addNote s n) = Some n
   \<and> notesStore (fst (addNote s n)) = notesStore s @ [n]
   \<and> (writable s \<longrightarrow>
        STORE_FILE (fst (addNote s n)) = Some (JSON_stringify (notesStore s @ [n])))"
proof -
  have "STORE_FILE (saveNotes (s\<lparr>notesStore := notesStore s @ [n]\<rparr>))
      = Some (JSON_stringify (notesStore s @ [n]))" if "writable s"
    using that by (simp add: saveNotes_written)
  then show ?thesis
    by (simp add: addNote_def Let_def saveNotes_notesStore)
qed

text \<open>The amended claim C2 on a writable store that holds one record.\<close>

theorem addNote_appends_and_returns_witness:
  "writable (sample_store [sample_note ''1'' ''A'' (IsoString 1)] True)
   \<and> snd (addNote (sample_store [sample_note ''1'' ''A'' (IsoString 1)] True)
                   (sample_note ''2'' ''B'' (DateObject 2)))
     = Some (sample_note ''2'' ''B'' (DateObject 2))
   \<and> notesStore (fst (addNote (sample_store [sample_note ''1'' ''A'' (IsoString 1)] True)
                                (sample_note ''2'' ''B'' (DateObject 2))))
     = [sample_note ''1'' ''A'' (IsoString 1), sample_note ''2'' ''B'' (DateObject 2)]
   \<and> STORE_FILE (fst (addNote (sample_store [sample_note ''1'' ''A'' (IsoString 1)] True)
                                (sample_note ''2'' ''B'' (DateObject 2))))
     = Some (JsonNotes [sample_note ''1'' ''A'' (IsoString 1),
                        sample_note ''2'' ''B'' (IsoString 2)])"
proof -
  let ?S = "sample_store [sample_note ''1'' ''A'' (IsoString 1)] True"
  have w: "writable ?S"
    by (simp add: sample_store_def)
  have e: "notesStore ?S = [sample_note ''1'' ''A'' (IsoString 1)]"
    by (simp add: sample_store_def)
  have j: "JSON_stringify [sample_note ''1'' ''A'' (IsoString 1),
                           sample_note ''2'' ''B'' (DateObject 2)]
      = JsonNotes [sample_note ''1'' ''A'' (IsoString 1), sample_note ''2'' ''B'' (IsoString 2)]"
    by (simp add: JSON_stringify_def stringify_note_def sample_note_def)
  show ?thesis
    using addNote_appends_and_returns [of ?S "sample_note ''2'' ''B'' (DateObject 2)"] w
    by (simp add: e j)
qed

text \<open>
  Claim C4 says that \<^verbatim>\<open>findNote\<close> after \<^verbatim>\<open>addNote\<close> returns the added record, for
  every record and state. \<^verbatim>\<open>addNote\<close> does not look at identifiers, and \<^verbatim>\<open>findNote\<close>
  returns the first match: when the store already holds a record with the same
  identifier, that older record is returned.
\<close>

theorem addNote_findNote_duplicate_id:
  "findNote (fst (addNote (sample_store [sample_note ''1'' ''A'' (IsoString 1)] True)
                          (sample_note ''1'' ''B'' (IsoString 2)))) ''1''
     = Some (sample_note ''1'' ''A'' (IsoString 1))
   \<and> note_id (sample_note ''1'' ''B'' (IsoString 2)) = ''1''
   \<and> sample_note ''1'' ''A'' (IsoString 1) \<noteq> sample_note ''1'' ''B'' (IsoString 2)"
  by (simp add: findNote_def addNote_def Let_def saveNotes_notesStore sample_store_def
      sample_note_def)

text \<open>
  Claim C4, amended. For every record \<open>n\<close> and every store state in which no record
  carries the identifier of \<open>n\<close>, \<^verbatim>\<open>addNote\<close> followed by \<^verbatim>\<open>findNote\<close> on that
  identifier returns \<open>n\<close>.
\<close>

theorem addNote_then_findNote:
  assumes "note_id n \<notin> note_id ` set (notesStore s)"
  shows "findNote (fst (addNote s n)) (note_id n) = Some n"
proof -
  have "\<forall>x\<in>set (notesStore s). \<not> note_id x = note_id n"
    using assms by (metis imageI)
  then show ?thesis
    by (simp add: findNote_def addNote_def Let_def saveNotes_notesStore find_append_absent)
qed

text \<open>The amended claim C4 on a store that holds one record with another identifier.\<close>

theorem addNote_then_findNote_witness:
  "note_id (sample_note ''2'' ''B'' (DateObject 2))
     \<notin> note_id ` set (notesStore (sample_store [sample_note ''1'' ''A'' (IsoString 1)] True))
   \<and> findNote (fst (addNote (sample_store [sample_note ''1'' ''A'' (IsoString 1)] True)
                            (sample_note ''2'' ''B'' (DateObject 2)))) ''2''
     = Some (sample_note ''2'' ''B'' (DateObject 2))"
proof -
  have h: "note_id (sample_note ''2'' ''B'' (DateObject 2))
     \<notin> note_id ` set (notesStore (sample_store [sample_note ''1'' ''A'' (IsoString 1)] True))"
    by (simp add: sample_store_def sample_note_def)
  have i: "note_id (sample_note ''2'' ''B'' (DateObject 2)) = ''2''"
    by (simp add: sample_note_def)
  show ?thesis
    using addNote_then_findNote [OF h] h by (simp add: i)
qed


section \<open>Listing\<close>

text \<open>
  Claim C3. For every store state, whatever the order in which the records were
  inserted, \<^verbatim>\<open>getNotes\<close> returns all the records of the collection, each as often
  as it occurs there, in descending order of creation time: the most recent first.
\<close>

theorem getNotes_sorted_descending:
  "sorted_wrt newest_first (snd (getNotes s))
   \<and> mset (snd (getNotes s)) = mset (notesStore s)"
  by (simp add: getNotes_def Let_def sorted_Array_sort mset_Array_sort)

text \<open>Claim C3 on the scenario of three records A, B, C created at times 1, 2, 3 and
  inserted in that order: the result is C, B, A.\<close>

theorem getNotes_sorted_descending_witness:
  "sorted_wrt newest_first
     (snd (getNotes (sample_store [sample_note ''1'' ''A'' (DateObject 1),
                                   sample_note ''2'' ''B'' (IsoString 2),
                                   sample_note ''3'' ''C'' (DateObject 3)] True)))
   \<and> snd (getNotes (sample_store [sample_note ''1'' ''A'' (DateObject 1),
                                  sample_note ''2'' ''B'' (IsoString 2),
                                  sample_note ''3'' ''C'' (DateObject 3)] True))
     = [sample_note ''3'' ''C'' (DateObject 3), sample_note ''2'' ''B'' (IsoString 2),
        sample_note ''1'' ''A'' (DateObject 1)]"
proof -
  have "snd (getNotes (sample_store [sample_note ''1'' ''A'' (DateObject 1),
                                     sample_note ''2'' ''B'' (IsoString 2),
                                     sample_note ''3'' ''C'' (DateObject 3)] True))
     = [sample_note ''3'' ''C'' (DateObject 3), sample_note ''2'' ''B'' (IsoString 2),
        sample_note ''1'' ''A'' (DateObject 1)]"
    by (simp add: getNotes_def Let_def sample_store_def sample_note_def byCreatedAt_def)
  then show ?thesis
    using getNotes_sorted_descending
      [of "sample_store [sample_note ''1'' ''A'' (DateObject 1),
                         sample_note ''2'' ''B'' (IsoString 2),
                         sample_note ''3'' ''C'' (DateObject 3)] True"]
    by simp
qed

text \<open>
  Claim C7 says that \<^verbatim>\<open>getNotes\<close> leaves the collection in memory unchanged, the order
  of its elements included. \<^verbatim>\<open>Array.prototype.sort\<close> sorts the array it is called on:
  a store that holds A (time 1) before B (time 2) holds B before A after the call.
\<close>

theorem getNotes_reorders_store:
  "notesStore (sample_store [sample_note ''1'' ''A'' (IsoString 1),
                             sample_note ''2'' ''B'' (IsoString 2)] True)
     = [sample_note ''1'' ''A'' (IsoString 1), sample_note ''2'' ''B'' (IsoString 2)]
   \<and> notesStore (fst (getNotes (sample_store [sample_note ''1'' ''A'' (IsoString 1),
                                              sample_note ''2'' ''B'' (IsoString 2)] True)))
     = [sample_note ''2'' ''B'' (IsoString 2), sample_note ''1'' ''A'' (IsoString 1)]
   \<and> [sample_note ''2'' ''B'' (IsoString 2), sample_note ''1'' ''A'' (IsoString 1)]
     \<noteq> [sample_note ''1'' ''A'' (IsoString 1), sample_note ''2'' ''B'' (IsoString 2)]"
  by (simp add: getNotes_def Let_def sample_store_def sample_note_def byCreatedAt_def)

text \<open>
  Claim C7, amended. For every store state, \<^verbatim>\<open>getNotes\<close> adds no record, removes none
  and does not touch the file, but it sorts the collection in memory in place: after
  the call the collection in memory is the sequence returned, in descending order of
  creation time, and the state is unchanged exactly when the collection was in that
  order already.
\<close>

theorem getNotes_store_effect:
  "fst (getNotes s) = s\<lparr>notesStore := snd (getNotes s)\<rparr>
   \<and> mset (notesStore (fst (getNotes s))) = mset (notesStore s)
   \<and> sorted_wrt newest_first (notesStore (fst (getNotes s)))
   \<and> (fst (getNotes s) = s) = sorted_wrt newest_first (notesStore s)"
proof -
  let ?r = "Array_sort byCreatedAt (notesStore s)"
  have g: "getNotes s = (s\<lparr>notesStore := ?r\<rparr>, ?r)"
    by (simp add: getNotes_def Let_def)
  have same: "s\<lparr>notesStore := ?r\<rparr> = s" if "sorted_wrt newest_first (notesStore s)"
    using that by (simp add: Array_sort_sorted_id)
  have conv: "sorted_wrt newest_first (notesStore s)" if "s\<lparr>notesStore := ?r\<rparr> = s"
  proof -
    from that have "notesStore (s\<lparr>notesStore := ?r\<rparr>) = notesStore s"
      by simp
    then have "?r = notesStore s"
      by simp
    then show ?thesis
      using sorted_Array_sort [of "notesStore s"] by simp
  qed
  have "(s\<lparr>notesStore := ?r\<rparr> = s) = sorted_wrt newest_first (notesStore s)"
    using same conv by blast
  then show ?thesis
    by (simp add: g mset_Array_sort sorted_Array_sort)
qed

text \<open>The amended claim C7 on a store that holds A (time 1) before B (time 2), which
  the call reorders, and on a store that holds B before A, which it leaves alone.\<close>

theorem getNotes_store_effect_witness:
  "\<not> sorted_wrt newest_first
       (notesStore (sample_store [sample_note ''1'' ''A'' (DateObject 1),
                                  sample_note ''2'' ''B'' (IsoString 2)] True))
   \<and> fst (getNotes (sample_store [sample_note ''1'' ''A'' (DateObject 1),
                                  sample_note ''2'' ''B'' (IsoString 2)] True))
     \<noteq> sample_store [sample_note ''1'' ''A'' (DateObject 1),
                     sample_note ''2'' ''B'' (IsoString 2)] True
   \<and> notesStore (fst (getNotes (sample_store [sample_note ''1'' ''A'' (DateObject 1),
                                              sample_note ''2'' ''B'' (IsoString 2)] True)))
     = [sample_note ''2'' ''B'' (IsoString 2), sample_note ''1'' ''A'' (DateObject 1)]
   \<and> sorted_wrt newest_first
       [sample_note ''2'' ''B'' (IsoString 2), sample_note ''1'' ''A'' (DateObject 1)]
   \<and> sorted_wrt newest_first
       (notesStore (sample_store [sample_note ''2'' ''B'' (IsoString 2),
                                  sample_note ''1'' ''A'' (DateObject 1)] True))
   \<and> fst (getNotes (sample_store [sample_note ''2'' ''B'' (IsoString 2),
                                  sample_note ''1'' ''A'' (DateObject 1)] True))
     = sample_store [sample_note ''2'' ''B'' (IsoString 2),
                     sample_note ''1'' ''A'' (DateObject 1)] True"
proof -
  let ?U = "sample_store [sample_note ''1'' ''A'' (DateObject 1),
                          sample_note ''2'' ''B'' (IsoString 2)] True"
  let ?T = "sample_store [sample_note ''2'' ''B'' (IsoString 2),
                          sample_note ''1'' ''A'' (DateObject 1)] True"
  have u: "\<not> sorted_wrt newest_first (notesStore ?U)"
    by (simp add: sample_store_def sample_note_def newest_first_def)
  have t: "sorted_wrt newest_first (notesStore ?T)"
    by (simp add: sample_store_def sample_note_def newest_first_def)
  have r: "snd (getNotes ?U)
      = [sample_note ''2'' ''B'' (IsoString 2), sample_note ''1'' ''A'' (DateObject 1)]"
    by (simp add: getNotes_def Let_def sample_store_def sample_note_def byCreatedAt_def)
  have n: "notesStore (fst (getNotes ?U)) = snd (getNotes ?U)"
    by (simp add: getNotes_def Let_def)
  have "fst (getNotes ?U) \<noteq> ?U"
    using getNotes_store_effect [of ?U] u by blast
  moreover have "sorted_wrt newest_first (notesStore (fst (getNotes ?U)))"
    using getNotes_store_effect [of ?U] by blast
  moreover have "fst (getNotes ?T) = ?T"
    using getNotes_store_effect [of ?T] t by blast
  ultimately show ?thesis
    using u t by (simp add: n r)
qed

section \<open>Removing\<close>

text \<open>
  Claim C5 says that after \<^verbatim>\<open>deleteNote\<close> on an identifier of the collection the
  shrunk collection is persisted and \<^verbatim>\<open>findNote\<close> on that identifier reports
  not-found. On a store that holds two records with the identifier and whose file
  cannot be written, the first record is removed and returned, \<^verbatim>\<open>findNote\<close> then
  returns the second, and the file keeps its old contents.
\<close>

theorem deleteNote_duplicate_still_found:
  "snd (deleteNote (sample_store [sample_note ''1'' ''A'' (IsoString 1),
                                  sample_note ''1'' ''B'' (IsoString 2)] False) ''1'')
     = Some (sample_note ''1'' ''A'' (IsoString 1))
   \<and> findNote (fst (deleteNote (sample_store [sample_note ''1'' ''A'' (IsoString 1),
                                              sample_note ''1'' ''B'' (IsoString 2)] False)
                                ''1'')) ''1''
     = Some (sample_note ''1'' ''B'' (IsoString 2))
   \<and> notesStore (fst (deleteNote (sample_store [sample_note ''1'' ''A'' (IsoString 1),
                                                sample_note ''1'' ''B'' (IsoString 2)] False)
                                  ''1''))
     = [sample_note ''1'' ''B'' (IsoString 2)]
   \<and> STORE_FILE (fst (deleteNote (sample_store [sample_note ''1'' ''A'' (IsoString 1),
                                                sample_note ''1'' ''B'' (IsoString 2)] False)
                                  ''1''))
     = Some (JsonNotes [])"
  by (simp add: deleteNote_def findIndex_def splice1_def Let_def findNote_def saveNotes_def
      writeFileSync_def sample_store_def sample_note_def)

text \<open>
  Claim C5, amended. Let \<open>n\<close> be the first record of the collection whose identifier
  is \<open>i\<close>. Then \<^verbatim>\<open>deleteNote\<close> on \<open>i\<close> returns \<open>n\<close> and removes it from the collection
  in memory, whether the write to the file succeeds or raises an error; when the write
  succeeds, the file holds the shrunk collection; and \<^verbatim>\<open>findNote\<close> on \<open>i\<close> reports
  not-found afterwards when no later record carries \<open>i\<close>. Every identifier present in the collection has such a
  first record (lemma \<open>first_match_exists\<close>).
\<close>

theorem deleteNote_existing:
  assumes "notesStore s = xs @ n # ys" and "note_id n = i"
    and "list_all (\<lambda>x. note_id x \<noteq> i) xs"
  shows "snd (deleteNote s i) = Some n
       \<and> notesStore (fst (deleteNote s i)) = xs @ ys
       \<and> (writable s \<longrightarrow> STORE_FILE (fst (deleteNote s i)) = Some (JSON_stringify (xs @ ys)))
       \<and> (list_all (\<lambda>y. note_id y \<noteq> i) ys \<longrightarrow> findNote (fst (deleteNote s i)) i = None)"
proof -
  have pre: "\<forall>x\<in>set xs. note_id x \<noteq> i"
    using assms(3) by (simp add: list_all_iff)
  have d: "deleteNote s i = (saveNotes (s\<lparr>notesStore := xs @ ys\<rparr>), Some n)"
    using assms(1,2) pre by (rule deleteNote_first)
  have "find (\<lambda>m. note_id m = i) (xs @ ys) = None" if "list_all (\<lambda>y. note_id y \<noteq> i) ys"
    using that pre by (auto simp: find_None_iff list_all_iff)
  moreover have "STORE_FILE (saveNotes (s\<lparr>notesStore := xs @ ys\<rparr>))
      = Some (JSON_stringify (xs @ ys))" if "writable s"
    using that by (simp add: saveNotes_written)
  ultimately show ?thesis
    by (simp add: d saveNotes_notesStore findNote_def)
qed

text \<open>The amended claim C5 on a writable store of two records, the second of which is
  removed.\<close>

theorem deleteNote_existing_witness:
  "notesStore (sample_store [sample_note ''7'' ''Z'' (IsoString 9),
                             sample_note ''1'' ''A'' (IsoString 1)] True)
     = [sample_note ''7'' ''Z'' (IsoString 9)] @ sample_note ''1'' ''A'' (IsoString 1) # []
   \<and> note_id (sample_note ''1'' ''A'' (IsoString 1)) = ''1''
   \<and> list_all (\<lambda>x. note_id x \<noteq> ''1'') [sample_note ''7'' ''Z'' (IsoString 9)]
   \<and> list_all (\<lambda>y. note_id y \<noteq> ''1'') ([] :: Note list)
   \<and> writable (sample_store [sample_note ''7'' ''Z'' (IsoString 9),
                             sample_note ''1'' ''A'' (IsoString 1)] True)
   \<and> snd (deleteNote (sample_store [sample_note ''7'' ''Z'' (IsoString 9),
                                    sample_note ''1'' ''A'' (IsoString 1)] True) ''1'')
       = Some (sample_note ''1'' ''A'' (IsoString 1))
   \<and> notesStore (fst (deleteNote (sample_store [sample_note ''7'' ''Z'' (IsoString 9),
                                                sample_note ''1'' ''A'' (IsoString 1)] True)
                                  ''1''))
       = [sample_note ''7'' ''Z'' (IsoString 9)]
   \<and> STORE_FILE (fst (deleteNote (sample_store [sample_note ''7'' ''Z'' (IsoString 9),
                                                sample_note ''1'' ''A'' (IsoString 1)] True)
                                  ''1''))
       = Some (JsonNotes [sample_note ''7'' ''Z'' (IsoString 9)])
   \<and> findNote (fst (deleteNote (sample_store [sample_note ''7'' ''Z'' (IsoString 9),
                                              sample_note ''1'' ''A'' (IsoString 1)] True)
                                ''1'')) ''1'' = None"
proof -
  let ?S = "sample_store [sample_note ''7'' ''Z'' (IsoString 9),
                          sample_note ''1'' ''A'' (IsoString 1)] True"
  have h1: "notesStore ?S
     = [sample_note ''7'' ''Z'' (IsoString 9)] @ sample_note ''1'' ''A'' (IsoString 1) # []"
    by (simp add: sample_store_def)
  have h2: "note_id (sample_note ''1'' ''A'' (IsoString 1)) = ''1''"
    by (simp add: sample_note_def)
  have h3: "list_all (\<lambda>x. note_id x \<noteq> ''1'') [sample_note ''7'' ''Z'' (IsoString 9)]"
    by (simp add: sample_note_def)
  have w: "writable ?S"
    by (simp add: sample_store_def)
  have st: "stringify_note (sample_note ''7'' ''Z'' (IsoString 9))
      = sample_note ''7'' ''Z'' (IsoString 9)"
    by (simp add: stringify_note_def sample_note_def)
  show ?thesis
    using deleteNote_existing [OF h1 h2 h3] h1 h2 h3 w
    by (simp add: JSON_stringify_def st)
qed

text \<open>
  Claim C6. For every identifier that no record of the collection carries,
  \<^verbatim>\<open>deleteNote\<close> reports not-found and leaves the state as it was: the collection in
  memory, with its order, and the file.
\<close>

theorem deleteNote_absent_unchanged:
  assumes "i \<notin> note_id ` set (notesStore s)"
  shows "deleteNote s i = (s, None)"
  using assms by (rule deleteNote_no_match)

text \<open>Claim C6 on a store of two records, asked to remove a third identifier.\<close>

theorem deleteNote_absent_unchanged_witness:
  "''3'' \<notin> note_id ` set (notesStore (sample_store [sample_note ''1'' ''A'' (IsoString 1),
                                                     sample_note ''2'' ''B'' (DateObject 2)] True))
   \<and> deleteNote (sample_store [sample_note ''1'' ''A'' (IsoString 1),
                               sample_note ''2'' ''B'' (DateObject 2)] True) ''3''
     = (sample_store [sample_note ''1'' ''A'' (IsoString 1),
                      sample_note ''2'' ''B'' (DateObject 2)] True, None)"
proof -
  have h: "''3'' \<notin> note_id ` set (notesStore (sample_store
      [sample_note ''1'' ''A'' (IsoString 1), sample_note ''2'' ''B'' (DateObject 2)] True))"
    by (simp add: sample_store_def sample_note_def)
  show ?thesis
    using deleteNote_absent_unchanged [OF h] h by simp
qed

text \<open>
  Claim C9. When the collection holds more than one record with identifier \<open>i\<close>
  (the first of them \<open>n\<close>, another one later), \<^verbatim>\<open>deleteNote\<close> on \<open>i\<close> removes \<open>n\<close>
  and nothing else: the records before and after \<open>n\<close> stay, in their order, the
  collection is shorter by one, and the later records with identifier \<open>i\<close> are
  all still there.
\<close>

theorem deleteNote_removes_first_duplicate_only:
  assumes "notesStore s = xs @ n # ys" and "note_id n = i"
    and "list_all (\<lambda>x. note_id x \<noteq> i) xs"
    and "i \<in> note_id ` set ys"
  shows "snd (deleteNote s i) = Some n
       \<and> notesStore (fst (deleteNote s i)) = xs @ ys
       \<and> Suc (length (notesStore (fst (deleteNote s i)))) = length (notesStore s)
       \<and> filter (\<lambda>m. note_id m = i) (notesStore (fst (deleteNote s i)))
           = filter (\<lambda>m. note_id m = i) ys
       \<and> findNote (fst (deleteNote s i)) i \<noteq> None"
proof -
  have pre: "\<forall>x\<in>set xs. note_id x \<noteq> i"
    using assms(3) by (simp add: list_all_iff)
  have d: "deleteNote s i = (saveNotes (s\<lparr>notesStore := xs @ ys\<rparr>), Some n)"
    using assms(1,2) pre by (rule deleteNote_first)
  have f: "filter (\<lambda>m. note_id m = i) xs = []"
    using pre by (simp add: filter_empty_conv)
  have "find (\<lambda>m. note_id m = i) (xs @ ys) \<noteq> None"
    using assms(4) by (auto simp: find_None_iff)
  then show ?thesis
    by (simp add: d saveNotes_notesStore findNote_def assms(1) f)
qed

text \<open>Claim C9 on a store of four records, the second and the fourth of which carry the
  identifier that is removed.\<close>

theorem deleteNote_removes_first_duplicate_only_witness:
  "notesStore (sample_store [sample_note ''7'' ''Z'' (IsoString 9),
                             sample_note ''1'' ''A'' (IsoString 1),
                             sample_note ''8'' ''Y'' (IsoString 8),
                             sample_note ''1'' ''B'' (IsoString 2)] True)
     = [sample_note ''7'' ''Z'' (IsoString 9)] @ sample_note ''1'' ''A'' (IsoString 1)
         # [sample_note ''8'' ''Y'' (IsoString 8), sample_note ''1'' ''B'' (IsoString 2)]
   \<and> note_id (sample_note ''1'' ''A'' (IsoString 1)) = ''1''
   \<and> list_all (\<lambda>x. note_id x \<noteq> ''1'') [sample_note ''7'' ''Z'' (IsoString 9)]
   \<and> ''1'' \<in> note_id ` set [sample_note ''8'' ''Y'' (IsoString 8),
                              sample_note ''1'' ''B'' (IsoString 2)]
   \<and> snd (deleteNote (sample_store [sample_note ''7'' ''Z'' (IsoString 9),
                                    sample_note ''1'' ''A'' (IsoString 1),
                                    sample_note ''8'' ''Y'' (IsoString 8),
                                    sample_note ''1'' ''B'' (IsoString 2)] True) ''1'')
       = Some (sample_note ''1'' ''A'' (IsoString 1))
   \<and> notesStore (fst (deleteNote (sample_store [sample_note ''7'' ''Z'' (IsoString 9),
                                                sample_note ''1'' ''A'' (IsoString 1),
                                                sample_note ''8'' ''Y'' (IsoString 8),
                                                sample_note ''1'' ''B'' (IsoString 2)] True)
                                  ''1''))
       = [sample_note ''7'' ''Z'' (IsoString 9), sample_note ''8'' ''Y'' (IsoString 8),
          sample_note ''1'' ''B'' (IsoString 2)]"
proof -
  let ?S = "sample_store [sample_note ''7'' ''Z'' (IsoString 9),
                          sample_note ''1'' ''A'' (IsoString 1),
                          sample_note ''8'' ''Y'' (IsoString 8),
                          sample_note ''1'' ''B'' (IsoString 2)] True"
  have h1: "notesStore ?S
     = [sample_note ''7'' ''Z'' (IsoString 9)] @ sample_note ''1'' ''A'' (IsoString 1)
         # [sample_note ''8'' ''Y'' (IsoString 8), sample_note ''1'' ''B'' (IsoString 2)]"
    by (simp add: sample_store_def)
  have h2: "note_id (sample_note ''1'' ''A'' (IsoString 1)) = ''1''"
    by (simp add: sample_note_def)
  have h3: "list_all (\<lambda>x. note_id x \<noteq> ''1'') [sample_note ''7'' ''Z'' (IsoString 9)]"
    by (simp add: sample_note_def)
  have h4: "''1'' \<in> note_id ` set [sample_note ''8'' ''Y'' (IsoString 8),
                                     sample_note ''1'' ''B'' (IsoString 2)]"
    by (simp add: sample_note_def)
  show ?thesis
    using deleteNote_removes_first_duplicate_only [OF h1 h2 h3 h4] h1 h2 h3 h4
    by simp
qed

section \<open>Loading\<close>

text \<open>
  Claim C8. When the file exists and its text is not JSON, \<^verbatim>\<open>loadNotes\<close> takes the
  failure to parse as no data: the collection in memory is empty afterwards, and the
  file keeps the text it had; nothing else of the state changes.
\<close>

theorem loadNotes_malformed:
  assumes "STORE_FILE s = Some (Malformed txt)"
  shows "notesStore (loadNotes s) = []
       \<and> STORE_FILE (loadNotes s) = Some (Malformed txt)
       \<and> loadNotes s = s\<lparr>notesStore := []\<rparr>"
  using assms by (simp add: loadNotes_def existsSync_def readFileSync_def)

text \<open>Claim C8 on the state of the module at start-up, over a file cut off in the
  middle of a record.\<close>

theorem loadNotes_malformed_witness:
  "STORE_FILE \<lparr> notesStore = [], STORE_FILE = Some (Malformed ''[{ id: 17''),
                 readable = True, writable = True,
    fault = OpenFails \<rparr> = Some (Malformed ''[{ id: 17'')
   \<and> loadNotes \<lparr> notesStore = [], STORE_FILE = Some (Malformed ''[{ id: 17''),
                  readable = True, writable = True,
    fault = OpenFails \<rparr>
     = \<lparr> notesStore = [], STORE_FILE = Some (Malformed ''[{ id: 17''),
         readable = True, writable = True,
    fault = OpenFails \<rparr>"
proof -
  have h: "STORE_FILE \<lparr> notesStore = [], STORE_FILE = Some (Malformed ''[{ id: 17''),
                        readable = True, writable = True,
    fault = OpenFails \<rparr> = Some (Malformed ''[{ id: 17'')"
    by simp
  show ?thesis
    using loadNotes_malformed [OF h] by simp
qed

section \<open>Uploading\<close>

text \<open>
  Claim C10. When an upload succeeds (the handler answers 201 with the note \<open>n\<close>),
  \<open>n\<close> is the record appended to the store, and: if the type field was absent or the
  empty string, the type of \<open>n\<close> is \<^verbatim>\<open>note\<close>; if the subject was absent, the subject
  of \<open>n\<close> is the empty string; if the description was absent, the description of
  \<open>n\<close> is the empty string. The three fields of a stored record are strings in every
  case, never \<^verbatim>\<open>undefined\<close> or \<^verbatim>\<open>null\<close>: \<open>or_default\<close> returns a string.
\<close>

theorem upload_defaults:
  assumes "snd (upload_handler s req up now_id now_created) = Response 201 (FileBody n)"
  shows "notesStore (fst (upload_handler s req up now_id now_created)) = notesStore s @ [n]
       \<and> (body_type req = None \<or> body_type req = Some [] \<longrightarrow> note_type n = ''note'')
       \<and> (body_subject req = None \<longrightarrow> subject n = [])
       \<and> (body_desc req = None \<longrightarrow> desc n = [])"
  using assms
  by (auto simp: upload_handler_def bad_request_def Let_def addNote_def saveNotes_notesStore
      or_default_def opt_trim_def split: option.splits sum.splits if_splits)

text \<open>Claim C10 on an upload that sends a file and a title only.\<close>

theorem upload_defaults_witness:
  "snd (upload_handler (sample_store [] True) (sample_req None None None)
          (Inr \<lparr> secure_url = ''https://res.example/a.pdf'', public_id = ''a'' \<rparr>) 42 43)
     = Response 201 (FileBody ((sample_note ''42'' ''Algebra'' (DateObject 43))))
   \<and> body_type (sample_req None None None) = None
   \<and> body_subject (sample_req None None None) = None
   \<and> body_desc (sample_req None None None) = None
   \<and> notesStore (fst (upload_handler (sample_store [] True) (sample_req None None None)
          (Inr \<lparr> secure_url = ''https://res.example/a.pdf'', public_id = ''a'' \<rparr>) 42 43))
     = [sample_note ''42'' ''Algebra'' (DateObject 43)]
   \<and> note_type (sample_note ''42'' ''Algebra'' (DateObject 43)) = ''note''
   \<and> subject (sample_note ''42'' ''Algebra'' (DateObject 43)) = []
   \<and> desc (sample_note ''42'' ''Algebra'' (DateObject 43)) = []"
proof -
  have t: "String_trim '' Algebra '' = ''Algebra''"
    by (simp add: String_trim_def is_whitespace_def)
  have i: "Number_toString 42 = ''42''"
    by (simp add: Number_toString_def nat_digits.simps [of 42] nat_digits.simps [of 4]
        digit_char_def)
  have h: "snd (upload_handler (sample_store [] True) (sample_req None None None)
          (Inr \<lparr> secure_url = ''https://res.example/a.pdf'', public_id = ''a'' \<rparr>) 42 43)
     = Response 201 (FileBody ((sample_note ''42'' ''Algebra'' (DateObject 43))))"
    by (simp add: upload_handler_def sample_req_def Let_def t i or_default_def opt_trim_def
        sample_note_def)
  have r: "body_type (sample_req None None None) = None
      \<and> body_subject (sample_req None None None) = None
      \<and> body_desc (sample_req None None None) = None"
    by (simp add: sample_req_def)
  have e: "notesStore (sample_store [] True) = []"
    by (simp add: sample_store_def)
  show ?thesis
    using upload_defaults [OF h] h r by (simp add: e)
qed

end
